theory Spec2Isabelle
  imports Complex_Main "HOL-Library.Sublist"
begin

section \<open>Python values, keyword dictionaries and exceptions\<close>

text \<open>
  The module \<^verbatim>\<open>gpt_researcher/utils/llm.py\<close> has two functions with decision logic,
  \<^verbatim>\<open>create_chat_completion\<close> and \<^verbatim>\<open>construct_subtopics\<close>. Both build a keyword
  dictionary, resolve a provider through \<^verbatim>\<open>get_llm\<close> and call it. The values that
  travel in a keyword dictionary are Python objects; the ones the module itself puts
  there are strings, integers, floats and \<^verbatim>\<open>None\<close>. A float is only stored and passed
  on, never computed with, so it is kept as the rational its literal denotes.
\<close>

datatype pyval = PNone | PStr string | PInt int | PFloat rat | PBool bool

type_synonym kwargs = "string \<rightharpoonup> pyval"

text \<open>An optional argument stored in a dictionary: \<^verbatim>\<open>None\<close> stays \<^verbatim>\<open>None\<close>.\<close>

definition opt_val :: "('a \<Rightarrow> pyval) \<Rightarrow> 'a option \<Rightarrow> pyval" where
  "opt_val f x = (case x of None \<Rightarrow> PNone | Some v \<Rightarrow> f v)"

text \<open>
  Exceptions. \<^verbatim>\<open>ValueError\<close> and \<^verbatim>\<open>RuntimeError\<close> are the two the module raises
  itself, each with its message. An exception raised by a collaborator (the provider
  registry, the provider, the prompt template, the parser) is of the collaborator's
  own type \<open>'e\<close>; the module has no handler around those calls in
  \<^verbatim>\<open>create_chat_completion\<close>, so it leaves the function as it is.
\<close>

datatype 'e pyerr = ValueError string | RuntimeError string | Propagated 'e

text \<open>\<^verbatim>\<open>str(n)\<close> of an integer, as an f-string formats it.\<close>

fun show_nat :: "nat \<Rightarrow> string" where
  "show_nat n =
     (if n < 10 then [''0123456789'' ! n]
      else show_nat (n div 10) @ [''0123456789'' ! (n mod 10)])"

declare show_nat.simps [simp del]

definition show_int :: "int \<Rightarrow> string" where
  "show_int i = (if i < 0 then ''-'' @ show_nat (nat (- i)) else show_nat (nat i))"

text \<open>An optional string inside an f-string: \<^verbatim>\<open>None\<close> prints as \<^verbatim>\<open>None\<close>.\<close>

definition show_opt :: "string option \<Rightarrow> string" where
  "show_opt s = (case s of None \<Rightarrow> ''None'' | Some t \<Rightarrow> t)"

text \<open>
  The test \<^verbatim>\<open>'o3' in model or 'o1' in model\<close>. Python's \<^verbatim>\<open>in\<close> on strings is
  the contiguous-substring test, which is \<^const>\<open>sublist\<close> on character lists.
\<close>

definition reasoning_family :: "string \<Rightarrow> bool" where
  "reasoning_family m = (sublist ''o3'' m \<or> sublist ''o1'' m)"

section \<open>Collaborators\<close>

text \<open>
  \<^verbatim>\<open>GenericLLMProvider.from_provider\<close>, the provider's \<^verbatim>\<open>get_chat_response\<close>,
  \<^verbatim>\<open>estimate_llm_cost\<close>, \<^verbatim>\<open>str\<close> on the message list, the prompt template and the
  LangChain chain live outside this module. They are parameters of the model: a
  registry maps a provider name and a keyword dictionary to a provider or raises, a
  provider answers a message list or raises, the cost estimator and \<^verbatim>\<open>str\<close> are
  total functions.
\<close>

record ('p, 'e) registry =
  from_provider :: "string option \<Rightarrow> kwargs \<Rightarrow> 'e + 'p"

record ('m, 'w, 'p, 'c, 'e) llm_env = "('p, 'e) registry" +
  get_chat_response :: "'p \<Rightarrow> 'm list \<Rightarrow> bool option \<Rightarrow> 'w option \<Rightarrow> 'e + string"
  estimate_llm_cost :: "string \<Rightarrow> string \<Rightarrow> 'c"
  str_of :: "'m list \<Rightarrow> string"

definition get_llm :: "('p, 'e, 'z) registry_scheme \<Rightarrow> string option \<Rightarrow> kwargs \<Rightarrow> 'e + 'p" where
  "get_llm env llm_provider kw = from_provider env llm_provider kw"

section \<open>The configuration object of \<^verbatim>\<open>construct_subtopics\<close>\<close>

record config =
  smart_llm_model :: string
  smart_llm_provider :: "string option"
  smart_token_limit :: int
  max_subtopics :: int
  temperature :: rat
  llm_kwargs :: "kwargs option"

section \<open>\<^verbatim>\<open>create_chat_completion\<close>\<close>

text \<open>
  The parameters of the function, under their Python names. The cost callback is the
  caller's: it takes the cost and updates the caller's state \<open>'s\<close>.
\<close>

record ('m, 'w, 'c, 's) chat_args =
  messages :: "'m list"
  model :: "string option"
  temperature :: "rat option"
  max_tokens :: "int option"
  llm_provider :: "string option"
  stream :: "bool option"
  websocket :: "'w option"
  llm_kwargs :: "kwargs option"
  cost_callback :: "('c \<Rightarrow> 's \<Rightarrow> 's) option"
  reasoning_effort :: "string option"

text \<open>The defaults of the signature; \<^verbatim>\<open>messages\<close> has none.\<close>

definition default_args :: "'m list \<Rightarrow> ('m, 'w, 'c, 's) chat_args" where
  "default_args ms =
     \<lparr> messages = ms, model = None, temperature = Some (4 / 10), max_tokens = Some 4000,
       llm_provider = None, stream = Some False, websocket = None, llm_kwargs = None,
       cost_callback = None, reasoning_effort = Some ''low'' \<rparr>"

text \<open>
  What the call does to the outside, in order: the provider it resolves (with the
  keyword dictionary it passes), each call of the provider, the cost estimate, the
  callback and the error log.
\<close>

datatype 'c event =
    GetLLM "string option" kwargs
  | GetChatResponse
  | EstimateCost string string
  | CostCallback 'c
  | LogError string

record ('c, 's, 'e) outcome =
  result :: "'e pyerr + string"
  events :: "'c event list"
  caller :: 's

text \<open>
  Lines 55 to 64: the dictionary starts with the model, the caller's extra parameters
  are unpacked after it, and then the branch on the model family assigns its keys.
\<close>

definition request_kwargs :: "string \<Rightarrow> ('m, 'w, 'c, 's) chat_args \<Rightarrow> kwargs" where
  "request_kwargs m a =
     (let kw = [''model'' \<mapsto> PStr m]
                 ++ (case llm_kwargs a of None \<Rightarrow> Map.empty | Some d \<Rightarrow> d)
      in if reasoning_family m
         then kw(''reasoning_effort'' \<mapsto> opt_val PStr (reasoning_effort a))
         else kw(''temperature'' \<mapsto> opt_val PFloat (temperature a),
                 ''max_tokens'' \<mapsto> opt_val PInt (max_tokens a)))"

definition failure_message :: "string option \<Rightarrow> string" where
  "failure_message p = ''Failed to get response from '' @ show_opt p @ '' API''"

text \<open>
  Lines 69 to 81: the loop over \<^verbatim>\<open>range(10)\<close>. Its body awaits the provider, calls
  the callback when there is one and returns; an exception of the provider leaves the
  loop and the function. The code after the loop runs when the range is empty.
\<close>

fun attempt_loop ::
  "('m, 'w, 'p, 'c, 'e) llm_env \<Rightarrow> ('m, 'w, 'c, 's) chat_args \<Rightarrow> 'p \<Rightarrow> nat list
     \<Rightarrow> 'c event list \<Rightarrow> 's \<Rightarrow> ('c, 's, 'e) outcome" where
  "attempt_loop env a provider [] evs st =
     \<lparr> result = Inl (RuntimeError (failure_message (llm_provider a))),
       events = evs @ [LogError (failure_message (llm_provider a))],
       caller = st \<rparr>"
| "attempt_loop env a provider (i # rest) evs st =
     (case get_chat_response env provider (messages a) (stream a) (websocket a) of
        Inl e \<Rightarrow> \<lparr> result = Inl (Propagated e), events = evs @ [GetChatResponse], caller = st \<rparr>
      | Inr response \<Rightarrow>
          (case cost_callback a of
             None \<Rightarrow> \<lparr> result = Inr response, events = evs @ [GetChatResponse], caller = st \<rparr>
           | Some cb \<Rightarrow>
               (let llm_costs = estimate_llm_cost env (str_of env (messages a)) response
                in \<lparr> result = Inr response,
                     events = evs @ [GetChatResponse,
                                     EstimateCost (str_of env (messages a)) response,
                                     CostCallback llm_costs],
                     caller = cb llm_costs st \<rparr>)))"

text \<open>
  Lines 54 to 81, the part after the validation: build the dictionary, resolve the
  provider (an exception of the registry leaves the function), run the loop.
\<close>

definition resolve_and_call ::
  "('m, 'w, 'p, 'c, 'e) llm_env \<Rightarrow> ('m, 'w, 'c, 's) chat_args \<Rightarrow> string \<Rightarrow> 's
     \<Rightarrow> ('c, 's, 'e) outcome" where
  "resolve_and_call env a m st =
     (let kw = request_kwargs m a
      in case get_llm env (llm_provider a) kw of
           Inl e \<Rightarrow> \<lparr> result = Inl (Propagated e), events = [GetLLM (llm_provider a) kw],
                      caller = st \<rparr>
         | Inr provider \<Rightarrow>
             attempt_loop env a provider [0..<10] [GetLLM (llm_provider a) kw] st)"

definition max_tokens_message :: "int \<Rightarrow> string" where
  "max_tokens_message n = ''Max tokens cannot be more than 16,000, but got '' @ show_int n"

definition create_chat_completion ::
  "('m, 'w, 'p, 'c, 'e) llm_env \<Rightarrow> ('m, 'w, 'c, 's) chat_args \<Rightarrow> 's \<Rightarrow> ('c, 's, 'e) outcome" where
  "create_chat_completion env a st =
     (case model a of
        None \<Rightarrow> \<lparr> result = Inl (ValueError ''Model cannot be None''), events = [], caller = st \<rparr>
      | Some m \<Rightarrow>
          (case max_tokens a of
             Some n \<Rightarrow>
               if n > 16001
               then \<lparr> result = Inl (ValueError (max_tokens_message n)), events = [], caller = st \<rparr>
               else resolve_and_call env a m st
           | None \<Rightarrow> resolve_and_call env a m st))"

text \<open>Observations on the events of a call.\<close>

fun resolved :: "'c event list \<Rightarrow> (string option \<times> kwargs) list" where
  "resolved [] = []"
| "resolved (GetLLM p kw # es) = (p, kw) # resolved es"
| "resolved (_ # es) = resolved es"

fun provider_calls :: "'c event list \<Rightarrow> nat" where
  "provider_calls [] = 0"
| "provider_calls (GetChatResponse # es) = Suc (provider_calls es)"
| "provider_calls (_ # es) = provider_calls es"

fun estimates :: "'c event list \<Rightarrow> (string \<times> string) list" where
  "estimates [] = []"
| "estimates (EstimateCost q r # es) = (q, r) # estimates es"
| "estimates (_ # es) = estimates es"

fun callback_costs :: "'c event list \<Rightarrow> 'c list" where
  "callback_costs [] = []"
| "callback_costs (CostCallback c # es) = c # callback_costs es"
| "callback_costs (_ # es) = callback_costs es"

section \<open>\<^verbatim>\<open>construct_subtopics\<close>\<close>

text \<open>
  The collaborators of \<^verbatim>\<open>construct_subtopics\<close>, besides the registry: lines 98 to 105
  build the parser and the prompt template (\<^verbatim>\<open>generate_subtopics_prompt\<close> and the
  parser's format instructions), lines 121 to 130 compose the chain
  \<^verbatim>\<open>prompt | provider.llm | parser\<close> and invoke it on the task, the data, the
  existing subtopics and \<^verbatim>\<open>config.max_subtopics\<close>. Either may raise. The chain reads
  the list it is given; it is a function of the list's elements.
\<close>

record ('p, 'q, 't, 'e) chain_env = "('p, 'e) registry" +
  subtopics_prompt :: "'e + 'q"
  chain_invoke :: "'q \<Rightarrow> 'p \<Rightarrow> string \<Rightarrow> string \<Rightarrow> 't list \<Rightarrow> int \<Rightarrow> 'e + 't list"

text \<open>
  The \<^verbatim>\<open>subtopics\<close> argument is a Python list object, passed by reference. The store
  maps the address of a list object to its elements. The function returns either the
  object the parser built (a \<^verbatim>\<open>Subtopics\<close> record holding a list) or the reference
  it was given.
\<close>

type_synonym addr = nat

type_synonym 't store = "addr \<Rightarrow> 't list"

datatype 't subtopics_value = SubtopicsObj "'t list" | ListRef addr

record ('t, 'e) subtopics_outcome =
  returned :: "'e pyerr + 't subtopics_value"
  store_after :: "'t store"
  printed :: "'e list"

text \<open>Lines 107 to 117.\<close>

definition subtopics_kwargs :: "config \<Rightarrow> kwargs" where
  "subtopics_kwargs cfg =
     (let kw = [''model'' \<mapsto> PStr (smart_llm_model cfg)]
                 ++ (case config.llm_kwargs cfg of None \<Rightarrow> Map.empty | Some d \<Rightarrow> d)
      in if reasoning_family (smart_llm_model cfg)
         then kw(''reasoning_effort'' \<mapsto> PStr ''high'')
         else kw(''temperature'' \<mapsto> PFloat (config.temperature cfg),
                 ''max_tokens'' \<mapsto> PInt (smart_token_limit cfg)))"

text \<open>The body of the \<^verbatim>\<open>try\<close> block, lines 98 to 132: the first exception ends it.\<close>

definition try_body ::
  "('p, 'q, 't, 'e) chain_env \<Rightarrow> string \<Rightarrow> string \<Rightarrow> config \<Rightarrow> addr \<Rightarrow> 't store \<Rightarrow> 'e + 't list" where
  "try_body env task data cfg subtopics h =
     (case subtopics_prompt env of
        Inl e \<Rightarrow> Inl e
      | Inr prompt \<Rightarrow>
          (case get_llm env (smart_llm_provider cfg) (subtopics_kwargs cfg) of
             Inl e \<Rightarrow> Inl e
           | Inr provider \<Rightarrow>
               chain_invoke env prompt provider task data (h subtopics) (max_subtopics cfg)))"

text \<open>
  The function: the output of the chain is returned as it is; the handler
  \<^verbatim>\<open>except Exception\<close> prints the exception and returns the argument.
\<close>

definition construct_subtopics ::
  "('p, 'q, 't, 'e) chain_env \<Rightarrow> string \<Rightarrow> string \<Rightarrow> config \<Rightarrow> addr \<Rightarrow> 't store
     \<Rightarrow> ('t, 'e) subtopics_outcome" where
  "construct_subtopics env task data cfg subtopics h =
     (case try_body env task data cfg subtopics h of
        Inr output \<Rightarrow> \<lparr> returned = Inr (SubtopicsObj output), store_after = h, printed = [] \<rparr>
      | Inl e \<Rightarrow> \<lparr> returned = Inr (ListRef subtopics), store_after = h, printed = [e] \<rparr>)"

text \<open>The elements of a returned value, read in a store.\<close>

definition elements :: "'t store \<Rightarrow> 't subtopics_value \<Rightarrow> 't list" where
  "elements h v = (case v of SubtopicsObj xs \<Rightarrow> xs | ListRef r \<Rightarrow> h r)"

section \<open>Test doubles\<close>

text \<open>
  Collaborators as a unit test supplies them: a registry that knows every provider, a
  provider with a fixed answer (a response or an exception), a cost estimator that
  counts characters, and a callback that appends the cost to the caller's list.
\<close>

definition fixed_env :: "string + string \<Rightarrow> (string, unit, unit, nat, string) llm_env" where
  "fixed_env reply =
     \<lparr> from_provider = (\<lambda>p kw. Inr ()),
       get_chat_response = (\<lambda>provider ms s w. reply),
       estimate_llm_cost = (\<lambda>q r. length q + length r),
       str_of = concat \<rparr>"

definition record_cost :: "nat \<Rightarrow> nat list \<Rightarrow> nat list" where
  "record_cost c costs = costs @ [c]"

definition fixed_chain ::
  "string + string \<Rightarrow> string + string list \<Rightarrow> (unit, string, string, string) chain_env" where
  "fixed_chain prompt reply =
     \<lparr> from_provider = (\<lambda>p kw. Inr ()),
       subtopics_prompt = prompt,
       chain_invoke = (\<lambda>q provider task data existing n. reply) \<rparr>"

definition sample_config :: config where
  "sample_config =
     \<lparr> smart_llm_model = ''gpt-4o'', smart_llm_provider = Some ''openai'',
       smart_token_limit = 4000, max_subtopics = 2, temperature = 4 / 10,
       llm_kwargs = None \<rparr>"

section \<open>Basic facts\<close>

lemma range_10: "[0..<10] = 0 # [1..<10]"
  by (simp add: upt_conv_Cons)

lemma reasoning_family_o1_mini: "reasoning_family ''o1-mini''"
  by (simp add: reasoning_family_def sublist_Cons_right)

lemma not_reasoning_family_gpt_4: "\<not> reasoning_family ''gpt-4''"
  by (simp add: reasoning_family_def sublist_Cons_right)

lemma not_reasoning_family_empty: "\<not> reasoning_family []"
  by (simp add: reasoning_family_def)

text \<open>The loop over \<^verbatim>\<open>range(10)\<close> is its first pass.\<close>

lemma attempt_loop_range_10:
  "attempt_loop env a provider [0..<10] evs st =
     (case get_chat_response env provider (messages a) (stream a) (websocket a) of
        Inl e \<Rightarrow> \<lparr> result = Inl (Propagated e), events = evs @ [GetChatResponse], caller = st \<rparr>
      | Inr response \<Rightarrow>
          (case cost_callback a of
             None \<Rightarrow> \<lparr> result = Inr response, events = evs @ [GetChatResponse], caller = st \<rparr>
           | Some cb \<Rightarrow>
               \<lparr> result = Inr response,
                 events = evs @ [GetChatResponse,
                                 EstimateCost (str_of env (messages a)) response,
                                 CostCallback (estimate_llm_cost env (str_of env (messages a)) response)],
                 caller = cb (estimate_llm_cost env (str_of env (messages a)) response) st \<rparr>))"
  by (simp add: range_10 Let_def split: sum.splits option.splits)

section \<open>Validation\<close>

text \<open>
  The two checks come first: a call they reject has resolved no provider, called
  none and left the caller's state alone.
\<close>

lemma model_none_rejected:
  "model a = None \<Longrightarrow>
     create_chat_completion env a st =
       \<lparr> result = Inl (ValueError ''Model cannot be None''), events = [], caller = st \<rparr>"
  by (simp add: create_chat_completion_def)

lemma max_tokens_above_16001_rejected:
  "model a = Some m \<Longrightarrow> max_tokens a = Some n \<Longrightarrow> 16001 < n \<Longrightarrow>
     create_chat_completion env a st =
       \<lparr> result = Inl (ValueError (max_tokens_message n)), events = [], caller = st \<rparr>"
  by (simp add: create_chat_completion_def)

lemma validation_passed:
  "model a = Some m \<Longrightarrow> max_tokens a = None \<or> (\<exists>n. max_tokens a = Some n \<and> n \<le> 16001) \<Longrightarrow>
     create_chat_completion env a st = resolve_and_call env a m st"
  by (auto simp add: create_chat_completion_def)

text \<open>After the validation, the result is the provider's or the registry's.\<close>

lemma resolve_and_call_result:
  "result (resolve_and_call env a m st) =
     (case get_llm env (llm_provider a) (request_kwargs m a) of
        Inl e \<Rightarrow> Inl (Propagated e)
      | Inr provider \<Rightarrow>
          (case get_chat_response env provider (messages a) (stream a) (websocket a) of
             Inl e \<Rightarrow> Inl (Propagated e)
           | Inr response \<Rightarrow> Inr response))"
  by (simp add: resolve_and_call_def attempt_loop_range_10 Let_def
      split: sum.splits option.splits)

lemma resolve_and_call_resolved:
  "resolved (events (resolve_and_call env a m st)) = [(llm_provider a, request_kwargs m a)]"
  by (simp add: resolve_and_call_def attempt_loop_range_10 Let_def
      split: sum.splits option.splits)

lemma resolve_and_call_provider_calls:
  "provider_calls (events (resolve_and_call env a m st)) =
     (case get_llm env (llm_provider a) (request_kwargs m a) of Inl e \<Rightarrow> 0 | Inr provider \<Rightarrow> 1)"
  by (simp add: resolve_and_call_def attempt_loop_range_10 Let_def
      split: sum.splits option.splits)

text \<open>
  The error after the loop is never the result: every pass of the loop leaves the
  function, and \<^verbatim>\<open>range(10)\<close> is not empty.
\<close>

lemma runtime_error_never_raised:
  "result (create_chat_completion env a st) \<noteq> Inl (RuntimeError msg)"
  by (simp add: create_chat_completion_def resolve_and_call_result
      split: option.splits sum.splits)

lemma at_most_one_provider_call:
  "provider_calls (events (create_chat_completion env a st)) \<le> 1"
  by (simp add: create_chat_completion_def resolve_and_call_provider_calls
      split: option.splits sum.splits)

text \<open>
  C1. The claim: every request with a max-token-count above 16000 fails with the
  validation error and resolves and calls no provider, and no request with a count of
  at most 16000 (or none) fails so. The message of the error says the same, "Max tokens
  cannot be more than 16,000". The guard compares with 16001, so a request for 16001
  tokens passes the validation: the registry is asked for the provider, the provider
  is called once and its response is returned.
\<close>

theorem max_tokens_16001_not_rejected:
  "result (create_chat_completion (fixed_env (Inr ''hello''))
      ((default_args [''hi''] :: (string, unit, nat, nat list) chat_args)
         \<lparr> model := Some ''gpt-4'', max_tokens := Some 16001, llm_provider := Some ''openai'' \<rparr>) [])
     = Inr ''hello''
   \<and> map fst (resolved (events (create_chat_completion (fixed_env (Inr ''hello''))
      ((default_args [''hi''] :: (string, unit, nat, nat list) chat_args)
         \<lparr> model := Some ''gpt-4'', max_tokens := Some 16001, llm_provider := Some ''openai'' \<rparr>) [])))
     = [Some ''openai'']
   \<and> provider_calls (events (create_chat_completion (fixed_env (Inr ''hello''))
      ((default_args [''hi''] :: (string, unit, nat, nat list) chat_args)
         \<lparr> model := Some ''gpt-4'', max_tokens := Some 16001, llm_provider := Some ''openai'' \<rparr>) []))
     = 1"
  by (simp add: create_chat_completion_def resolve_and_call_result resolve_and_call_resolved
      resolve_and_call_provider_calls default_args_def fixed_env_def get_llm_def)

text \<open>
  C9. The claim: the max-token-count validation comes before the classification of the
  model, so a reasoning-family model with an over-limit max-token-count is rejected
  although the count would not be passed on. The order is as claimed
  (\<open>max_tokens_above_16001_rejected\<close> holds for every model). The limit the claim and
  the error message name is 16000, and the guard compares with 16001: the request
  for \<^verbatim>\<open>o1-mini\<close> with 16001 tokens is not rejected, the provider is resolved with
  a dictionary without \<^verbatim>\<open>max_tokens\<close> and called.
\<close>

theorem reasoning_model_16001_not_rejected:
  "reasoning_family ''o1-mini''
   \<and> result (create_chat_completion (fixed_env (Inr ''hello''))
      ((default_args [''hi''] :: (string, unit, nat, nat list) chat_args)
         \<lparr> model := Some ''o1-mini'', max_tokens := Some 16001 \<rparr>) [])
     = Inr ''hello''
   \<and> map (\<lambda>(p, kw). kw ''max_tokens'')
        (resolved (events (create_chat_completion (fixed_env (Inr ''hello''))
          ((default_args [''hi''] :: (string, unit, nat, nat list) chat_args)
             \<lparr> model := Some ''o1-mini'', max_tokens := Some 16001 \<rparr>) [])))
     = [None]
   \<and> provider_calls (events (create_chat_completion (fixed_env (Inr ''hello''))
      ((default_args [''hi''] :: (string, unit, nat, nat list) chat_args)
         \<lparr> model := Some ''o1-mini'', max_tokens := Some 16001 \<rparr>) []))
     = 1"
  by (simp add: create_chat_completion_def resolve_and_call_result resolve_and_call_resolved
      resolve_and_call_provider_calls default_args_def fixed_env_def get_llm_def
      request_kwargs_def reasoning_family_o1_mini)

section \<open>The loop\<close>

text \<open>
  C2. The claim: when all ten attempts end without a response, the call fails with the
  error that names the provider (the \<^verbatim>\<open>RuntimeError\<close> after the loop, which the
  comment "maximum of 10 attempts" announces). The body of the loop has no handler and
  returns in its first pass: with a provider that raises on every call, the call makes
  one attempt and the provider's own exception leaves the function.
\<close>

theorem provider_exception_propagates_after_one_attempt:
  "result (create_chat_completion (fixed_env (Inl ''timeout''))
      ((default_args [''hi''] :: (string, unit, nat, nat list) chat_args)
         \<lparr> model := Some ''gpt-4'', llm_provider := Some ''openai'' \<rparr>) [])
     = Inl (Propagated ''timeout'')
   \<and> result (create_chat_completion (fixed_env (Inl ''timeout''))
      ((default_args [''hi''] :: (string, unit, nat, nat list) chat_args)
         \<lparr> model := Some ''gpt-4'', llm_provider := Some ''openai'' \<rparr>) [])
     \<noteq> Inl (RuntimeError (failure_message (Some ''openai'')))
   \<and> provider_calls (events (create_chat_completion (fixed_env (Inl ''timeout''))
      ((default_args [''hi''] :: (string, unit, nat, nat list) chat_args)
         \<lparr> model := Some ''gpt-4'', llm_provider := Some ''openai'' \<rparr>) []))
     = 1"
  by (simp add: create_chat_completion_def resolve_and_call_result
      resolve_and_call_provider_calls default_args_def fixed_env_def get_llm_def)

section \<open>The model check\<close>

text \<open>
  C8 as stated: a request whose model is absent or empty fails with the validation
  error. The check is \<^verbatim>\<open>model is None\<close>; the empty string is not \<^verbatim>\<open>None\<close>, passes
  the validation and reaches the provider.
\<close>

theorem empty_model_not_rejected:
  "model ((default_args [''hi''] :: (string, unit, nat, nat list) chat_args) \<lparr> model := Some [] \<rparr>)
     = Some []
   \<and> result (create_chat_completion (fixed_env (Inr ''hello''))
      ((default_args [''hi''] :: (string, unit, nat, nat list) chat_args) \<lparr> model := Some [] \<rparr>) [])
     = Inr ''hello''
   \<and> provider_calls (events (create_chat_completion (fixed_env (Inr ''hello''))
      ((default_args [''hi''] :: (string, unit, nat, nat list) chat_args) \<lparr> model := Some [] \<rparr>) []))
     = 1"
  by (simp add: create_chat_completion_def resolve_and_call_result
      resolve_and_call_provider_calls default_args_def fixed_env_def get_llm_def)

text \<open>
  C8, amended: a request whose model is absent (\<^verbatim>\<open>None\<close>) fails with
  \<^verbatim>\<open>ValueError("Model cannot be None")\<close> before any provider is resolved or called and
  without a callback; a request whose model is a string, the empty one included, never
  fails with that error.
\<close>

theorem model_none_is_the_validation_failure:
  "(model a = None \<longrightarrow>
      result (create_chat_completion env a st) = Inl (ValueError ''Model cannot be None'')
      \<and> events (create_chat_completion env a st) = []
      \<and> caller (create_chat_completion env a st) = st)
   \<and> (model a = Some m \<longrightarrow>
      result (create_chat_completion env a st) \<noteq> Inl (ValueError ''Model cannot be None''))"
proof (intro conjI impI)
  assume "model a = Some m"
  have msg: "max_tokens_message n \<noteq> ''Model cannot be None''" for n
    by (simp add: max_tokens_message_def)
  from \<open>model a = Some m\<close>
  show "result (create_chat_completion env a st) \<noteq> Inl (ValueError ''Model cannot be None'')"
    by (simp add: create_chat_completion_def resolve_and_call_result msg
        split: option.splits sum.splits)
qed (simp_all add: model_none_rejected)

theorem model_none_is_the_validation_failure_witness:
  "result (create_chat_completion (fixed_env (Inr ''hello''))
      (default_args [''hi''] :: (string, unit, nat, nat list) chat_args) [])
     = Inl (ValueError ''Model cannot be None'')
   \<and> events (create_chat_completion (fixed_env (Inr ''hello''))
      (default_args [''hi''] :: (string, unit, nat, nat list) chat_args) []) = []
   \<and> result (create_chat_completion (fixed_env (Inr ''hello''))
      ((default_args [''hi''] :: (string, unit, nat, nat list) chat_args) \<lparr> model := Some [] \<rparr>) [])
     \<noteq> Inl (ValueError ''Model cannot be None'')"
  using model_none_is_the_validation_failure
          [of "default_args [''hi''] :: (string, unit, nat, nat list) chat_args"
              "fixed_env (Inr ''hello'')" "[]" "[]"]
        model_none_is_the_validation_failure
          [of "(default_args [''hi''] :: (string, unit, nat, nat list) chat_args) \<lparr> model := Some [] \<rparr>"
              "fixed_env (Inr ''hello'')" "[]" "[]"]
  by (simp add: default_args_def)

section \<open>The keyword dictionary\<close>

text \<open>The dictionary of lines 55 to 64 is the one the registry receives.\<close>

lemma create_chat_completion_resolved:
  "resolved (events (create_chat_completion env a st)) =
     (case model a of
        None \<Rightarrow> []
      | Some m \<Rightarrow>
          (case max_tokens a of
             None \<Rightarrow> [(llm_provider a, request_kwargs m a)]
           | Some n \<Rightarrow> if 16001 < n then [] else [(llm_provider a, request_kwargs m a)]))"
  by (simp add: create_chat_completion_def resolve_and_call_resolved split: option.splits)

text \<open>The dictionary, key by key.\<close>

lemma request_kwargs_apply:
  "request_kwargs m a k =
     (if reasoning_family m \<and> k = ''reasoning_effort''
        then Some (opt_val PStr (reasoning_effort a))
      else if \<not> reasoning_family m \<and> k = ''temperature''
        then Some (opt_val PFloat (temperature a))
      else if \<not> reasoning_family m \<and> k = ''max_tokens''
        then Some (opt_val PInt (max_tokens a))
      else (case (case llm_kwargs a of None \<Rightarrow> Map.empty | Some d \<Rightarrow> d) k of
              Some v \<Rightarrow> Some v
            | None \<Rightarrow> if k = ''model'' then Some (PStr m) else None))"
  by (simp add: request_kwargs_def Let_def map_add_def split: option.splits)

text \<open>
  C3 as stated: the caller's extra parameters win over the shaped temperature,
  max-token-count and reasoning effort, and cannot replace the model. The dictionary is
  built the other way round: the model is written first and the extra parameters are
  unpacked over it, and the branch on the model family assigns its keys last. A caller
  who passes \<^verbatim>\<open>llm_kwargs = {'temperature': 1.0, 'model': 'other'}\<close> with the
  default temperature gets temperature 0.4 and model \<^verbatim>\<open>other\<close>.
\<close>

theorem extra_parameters_replace_model_not_temperature:
  "request_kwargs ''gpt-4''
      ((default_args [''hi''] :: (string, unit, nat, nat list) chat_args)
         \<lparr> model := Some ''gpt-4'',
           llm_kwargs := Some [''temperature'' \<mapsto> PFloat 1, ''model'' \<mapsto> PStr ''other''] \<rparr>)
      ''temperature''
     = Some (PFloat (4 / 10))
   \<and> request_kwargs ''gpt-4''
      ((default_args [''hi''] :: (string, unit, nat, nat list) chat_args)
         \<lparr> model := Some ''gpt-4'',
           llm_kwargs := Some [''temperature'' \<mapsto> PFloat 1, ''model'' \<mapsto> PStr ''other''] \<rparr>)
      ''model''
     = Some (PStr ''other'')"
  by (simp add: request_kwargs_apply not_reasoning_family_gpt_4 default_args_def opt_val_def)

text \<open>
  C3, amended: in the dictionary the registry receives, the keys the branch on the model
  family assigns (\<^verbatim>\<open>reasoning_effort\<close> for a reasoning-family model, \<^verbatim>\<open>temperature\<close>
  and \<^verbatim>\<open>max_tokens\<close> for any other) hold the function's own arguments, whatever the
  caller's extra parameters say; every other key holds the caller's extra parameter
  when there is one, the key \<^verbatim>\<open>model\<close> included; and \<^verbatim>\<open>model\<close> holds the model
  argument only when the extra parameters have no such key.
\<close>

theorem shaped_keys_override_extra_parameters:
  "resolved (events (resolve_and_call env a m st)) = [(llm_provider a, request_kwargs m a)]
   \<and> request_kwargs m a k =
       (if reasoning_family m \<and> k = ''reasoning_effort''
          then Some (opt_val PStr (reasoning_effort a))
        else if \<not> reasoning_family m \<and> k = ''temperature''
          then Some (opt_val PFloat (temperature a))
        else if \<not> reasoning_family m \<and> k = ''max_tokens''
          then Some (opt_val PInt (max_tokens a))
        else (case (case llm_kwargs a of None \<Rightarrow> Map.empty | Some d \<Rightarrow> d) k of
                Some v \<Rightarrow> Some v
              | None \<Rightarrow> if k = ''model'' then Some (PStr m) else None))"
  by (simp only: resolve_and_call_resolved request_kwargs_apply simp_thms)

theorem shaped_keys_override_extra_parameters_witness:
  "request_kwargs ''o1-mini''
      ((default_args [''hi''] :: (string, unit, nat, nat list) chat_args)
         \<lparr> llm_kwargs := Some [''reasoning_effort'' \<mapsto> PStr ''high'', ''top_p'' \<mapsto> PFloat 1] \<rparr>)
      ''reasoning_effort''
     = Some (PStr ''low'')
   \<and> request_kwargs ''o1-mini''
      ((default_args [''hi''] :: (string, unit, nat, nat list) chat_args)
         \<lparr> llm_kwargs := Some [''reasoning_effort'' \<mapsto> PStr ''high'', ''top_p'' \<mapsto> PFloat 1] \<rparr>)
      ''top_p''
     = Some (PFloat 1)"
  using shaped_keys_override_extra_parameters
          [of "fixed_env (Inr ''hello'')"
              "(default_args [''hi''] :: (string, unit, nat, nat list) chat_args)
                 \<lparr> llm_kwargs := Some [''reasoning_effort'' \<mapsto> PStr ''high'', ''top_p'' \<mapsto> PFloat 1] \<rparr>"
              "''o1-mini''" "[]" "''reasoning_effort''"]
        shaped_keys_override_extra_parameters
          [of "fixed_env (Inr ''hello'')"
              "(default_args [''hi''] :: (string, unit, nat, nat list) chat_args)
                 \<lparr> llm_kwargs := Some [''reasoning_effort'' \<mapsto> PStr ''high'', ''top_p'' \<mapsto> PFloat 1] \<rparr>"
              "''o1-mini''" "[]" "''top_p''"]
  by (simp add: reasoning_family_o1_mini default_args_def opt_val_def)

lemma request_kwargs_dom_reasoning:
  "reasoning_family m \<Longrightarrow> llm_kwargs a = None \<Longrightarrow>
     dom (request_kwargs m a) = {''model'', ''reasoning_effort''}"
  by (simp add: request_kwargs_def Let_def insert_commute)

lemma request_kwargs_dom_conventional:
  "\<not> reasoning_family m \<Longrightarrow> llm_kwargs a = None \<Longrightarrow>
     dom (request_kwargs m a) = {''model'', ''temperature'', ''max_tokens''}"
  by (simp add: request_kwargs_def Let_def insert_commute)

text \<open>
  C6 as stated: for a model whose name contains \<^verbatim>\<open>o1\<close> or \<^verbatim>\<open>o3\<close> the shaped
  parameters contain \<^verbatim>\<open>reasoning_effort\<close> and neither \<^verbatim>\<open>temperature\<close> nor
  \<^verbatim>\<open>max_tokens\<close>, and for every other model they contain the latter two and no
  \<^verbatim>\<open>reasoning_effort\<close>. The branch on the model family only adds its own keys; it
  removes none, and the caller's extra parameters are already in the dictionary. The
  call for \<^verbatim>\<open>o1-mini\<close> with \<^verbatim>\<open>llm_kwargs = {'temperature': 1.0, 'max_tokens': 5}\<close>
  hands the registry a dictionary with all three keys, and the call for \<^verbatim>\<open>gpt-4\<close>
  with \<^verbatim>\<open>llm_kwargs = {'reasoning_effort': 'high'}\<close> one with all three as well.
\<close>

theorem extra_parameters_keep_the_other_family_keys:
  "reasoning_family ''o1-mini''
   \<and> map (\<lambda>(p, kw). (kw ''reasoning_effort'', kw ''temperature'', kw ''max_tokens''))
        (resolved (events (create_chat_completion (fixed_env (Inr ''hello''))
          ((default_args [''hi''] :: (string, unit, nat, nat list) chat_args)
             \<lparr> model := Some ''o1-mini'',
               llm_kwargs := Some [''temperature'' \<mapsto> PFloat 1, ''max_tokens'' \<mapsto> PInt 5] \<rparr>) [])))
     = [(Some (PStr ''low''), Some (PFloat 1), Some (PInt 5))]
   \<and> \<not> reasoning_family ''gpt-4''
   \<and> map (\<lambda>(p, kw). (kw ''reasoning_effort'', kw ''temperature'', kw ''max_tokens''))
        (resolved (events (create_chat_completion (fixed_env (Inr ''hello''))
          ((default_args [''hi''] :: (string, unit, nat, nat list) chat_args)
             \<lparr> model := Some ''gpt-4'',
               llm_kwargs := Some [''reasoning_effort'' \<mapsto> PStr ''high''] \<rparr>) [])))
     = [(Some (PStr ''high''), Some (PFloat (4 / 10)), Some (PInt 4000))]"
  by (simp add: create_chat_completion_resolved request_kwargs_apply default_args_def
      opt_val_def reasoning_family_o1_mini not_reasoning_family_gpt_4)

text \<open>
  C6, amended: a call that passes the validation hands the registry one dictionary,
  built from the call's own model. If the model's name contains \<^verbatim>\<open>o1\<close> or \<^verbatim>\<open>o3\<close>,
  the dictionary has the entry \<^verbatim>\<open>reasoning_effort\<close> holding the argument of that name
  (default \<^verbatim>\<open>"low"\<close>), and the function adds neither \<^verbatim>\<open>temperature\<close> nor
  \<^verbatim>\<open>max_tokens\<close>: each of the two is in the dictionary exactly when the caller's
  extra parameters carry it, with the caller's value, and with no extra parameters the
  keys are \<^verbatim>\<open>model\<close> and \<^verbatim>\<open>reasoning_effort\<close> and no other. For every other model
  the dictionary has \<^verbatim>\<open>temperature\<close> and \<^verbatim>\<open>max_tokens\<close> holding the arguments of
  those names (defaults 0.4 and 4000), \<^verbatim>\<open>reasoning_effort\<close> is in it exactly when the
  caller's extra parameters carry it, and with no extra parameters the keys are
  \<^verbatim>\<open>model\<close>, \<^verbatim>\<open>temperature\<close> and \<^verbatim>\<open>max_tokens\<close> and no other.
\<close>

theorem resolved_dictionary_by_model_family:
  assumes "model a = Some m"
    and "max_tokens a = None \<or> (\<exists>n. max_tokens a = Some n \<and> n \<le> 16001)"
  shows
  "resolved (events (create_chat_completion env a st)) = [(llm_provider a, request_kwargs m a)]
   \<and> (reasoning_family m \<longrightarrow>
      request_kwargs m a ''reasoning_effort'' = Some (opt_val PStr (reasoning_effort a))
      \<and> request_kwargs m a ''temperature''
          = (case llm_kwargs a of None \<Rightarrow> None | Some d \<Rightarrow> d ''temperature'')
      \<and> request_kwargs m a ''max_tokens''
          = (case llm_kwargs a of None \<Rightarrow> None | Some d \<Rightarrow> d ''max_tokens'')
      \<and> (llm_kwargs a = None \<longrightarrow>
            dom (request_kwargs m a) = {''model'', ''reasoning_effort''}))
   \<and> (\<not> reasoning_family m \<longrightarrow>
      request_kwargs m a ''temperature'' = Some (opt_val PFloat (temperature a))
      \<and> request_kwargs m a ''max_tokens'' = Some (opt_val PInt (max_tokens a))
      \<and> request_kwargs m a ''reasoning_effort''
          = (case llm_kwargs a of None \<Rightarrow> None | Some d \<Rightarrow> d ''reasoning_effort'')
      \<and> (llm_kwargs a = None \<longrightarrow>
            dom (request_kwargs m a) = {''model'', ''temperature'', ''max_tokens''}))
   \<and> reasoning_effort (default_args (messages a) :: ('m, 'w, 'c, 's) chat_args) = Some ''low''
   \<and> temperature (default_args (messages a) :: ('m, 'w, 'c, 's) chat_args) = Some (4 / 10)
   \<and> max_tokens (default_args (messages a) :: ('m, 'w, 'c, 's) chat_args) = Some 4000"
proof -
  from assms
  have "resolved (events (create_chat_completion env a st))
      = [(llm_provider a, request_kwargs m a)]"
    by (auto simp add: create_chat_completion_resolved)
  then show ?thesis
    by (intro conjI impI)
      (simp_all add: request_kwargs_apply request_kwargs_dom_reasoning
         request_kwargs_dom_conventional default_args_def split: option.splits)
qed

theorem resolved_dictionary_by_model_family_witness:
  "map (\<lambda>(p, kw). (kw ''reasoning_effort'', kw ''temperature'', kw ''max_tokens''))
        (resolved (events (create_chat_completion (fixed_env (Inr ''hello''))
          ((default_args [''hi''] :: (string, unit, nat, nat list) chat_args)
             \<lparr> model := Some ''o1-mini'' \<rparr>) [])))
     = [(Some (PStr ''low''), None, None)]
   \<and> map (\<lambda>(p, kw). dom kw)
        (resolved (events (create_chat_completion (fixed_env (Inr ''hello''))
          ((default_args [''hi''] :: (string, unit, nat, nat list) chat_args)
             \<lparr> model := Some ''o1-mini'' \<rparr>) [])))
     = [{''model'', ''reasoning_effort''}]
   \<and> map (\<lambda>(p, kw). (kw ''reasoning_effort'', kw ''temperature'', kw ''max_tokens''))
        (resolved (events (create_chat_completion (fixed_env (Inr ''hello''))
          ((default_args [''hi''] :: (string, unit, nat, nat list) chat_args)
             \<lparr> model := Some ''gpt-4'' \<rparr>) [])))
     = [(None, Some (PFloat (4 / 10)), Some (PInt 4000))]
   \<and> map (\<lambda>(p, kw). dom kw)
        (resolved (events (create_chat_completion (fixed_env (Inr ''hello''))
          ((default_args [''hi''] :: (string, unit, nat, nat list) chat_args)
             \<lparr> model := Some ''gpt-4'' \<rparr>) [])))
     = [{''model'', ''temperature'', ''max_tokens''}]"
proof -
  let ?r = "(default_args [''hi''] :: (string, unit, nat, nat list) chat_args)
              \<lparr> model := Some ''o1-mini'' \<rparr>"
  let ?c = "(default_args [''hi''] :: (string, unit, nat, nat list) chat_args)
              \<lparr> model := Some ''gpt-4'' \<rparr>"
  have r_model: "model ?r = Some ''o1-mini''"
    and r_tokens: "max_tokens ?r = None \<or> (\<exists>n. max_tokens ?r = Some n \<and> n \<le> 16001)"
    and r_extra: "llm_kwargs ?r = None"
    and r_effort: "reasoning_effort ?r = Some ''low''"
    by (simp_all add: default_args_def)
  have c_model: "model ?c = Some ''gpt-4''"
    and c_tokens: "max_tokens ?c = None \<or> (\<exists>n. max_tokens ?c = Some n \<and> n \<le> 16001)"
    and c_extra: "llm_kwargs ?c = None"
    and c_temperature: "temperature ?c = Some (4 / 10)"
    and c_max: "max_tokens ?c = Some 4000"
    by (simp_all add: default_args_def)
  note reasoning = resolved_dictionary_by_model_family
         [OF r_model r_tokens, of "fixed_env (Inr ''hello'')" "[]"]
  note conventional = resolved_dictionary_by_model_family
         [OF c_model c_tokens, of "fixed_env (Inr ''hello'')" "[]"]
  note r_res = reasoning [THEN conjunct1]
  note r_keys = reasoning [THEN conjunct2, THEN conjunct1, THEN mp, OF reasoning_family_o1_mini]
  note c_res = conventional [THEN conjunct1]
  note c_keys = conventional [THEN conjunct2, THEN conjunct2, THEN conjunct1, THEN mp,
                 OF not_reasoning_family_gpt_4]
  have r1: "request_kwargs ''o1-mini'' ?r ''reasoning_effort'' = Some (PStr ''low'')"
    using r_keys [THEN conjunct1]
    by (simp only: r_effort opt_val_def option.case)
  have r2: "request_kwargs ''o1-mini'' ?r ''temperature'' = None"
    using r_keys [THEN conjunct2, THEN conjunct1]
    by (simp only: r_extra option.case)
  have r3: "request_kwargs ''o1-mini'' ?r ''max_tokens'' = None"
    using r_keys [THEN conjunct2, THEN conjunct2, THEN conjunct1]
    by (simp only: r_extra option.case)
  have r4: "dom (request_kwargs ''o1-mini'' ?r) = {''model'', ''reasoning_effort''}"
    by (rule r_keys [THEN conjunct2, THEN conjunct2, THEN conjunct2, THEN mp, OF r_extra])
  have c1: "request_kwargs ''gpt-4'' ?c ''temperature'' = Some (PFloat (4 / 10))"
    using c_keys [THEN conjunct1]
    by (simp only: c_temperature opt_val_def option.case)
  have c2: "request_kwargs ''gpt-4'' ?c ''max_tokens'' = Some (PInt 4000)"
    using c_keys [THEN conjunct2, THEN conjunct1]
    by (simp only: c_max opt_val_def option.case)
  have c3: "request_kwargs ''gpt-4'' ?c ''reasoning_effort'' = None"
    using c_keys [THEN conjunct2, THEN conjunct2, THEN conjunct1]
    by (simp only: c_extra option.case)
  have c4: "dom (request_kwargs ''gpt-4'' ?c) = {''model'', ''temperature'', ''max_tokens''}"
    by (rule c_keys [THEN conjunct2, THEN conjunct2, THEN conjunct2, THEN mp, OF c_extra])
  have a: "map (\<lambda>(p, kw). (kw ''reasoning_effort'', kw ''temperature'', kw ''max_tokens''))
        (resolved (events (create_chat_completion (fixed_env (Inr ''hello'')) ?r [])))
      = [(Some (PStr ''low''), None, None)]"
    by (simp only: r_res list.map prod.case r1 r2 r3)
  have b: "map (\<lambda>(p, kw). dom kw)
        (resolved (events (create_chat_completion (fixed_env (Inr ''hello'')) ?r [])))
      = [{''model'', ''reasoning_effort''}]"
    by (simp only: r_res list.map prod.case r4)
  have c: "map (\<lambda>(p, kw). (kw ''reasoning_effort'', kw ''temperature'', kw ''max_tokens''))
        (resolved (events (create_chat_completion (fixed_env (Inr ''hello'')) ?c [])))
      = [(None, Some (PFloat (4 / 10)), Some (PInt 4000))]"
    by (simp only: c_res list.map prod.case c1 c2 c3)
  have d: "map (\<lambda>(p, kw). dom kw)
        (resolved (events (create_chat_completion (fixed_env (Inr ''hello'')) ?c [])))
      = [{''model'', ''temperature'', ''max_tokens''}]"
    by (simp only: c_res list.map prod.case c4)
  show ?thesis by (intro conjI a b c d)
qed

section \<open>The cost callback\<close>

text \<open>The events and the caller's state after the validation, case by case.\<close>

lemma resolve_and_call_cases:
  "resolve_and_call env a m st =
     (case get_llm env (llm_provider a) (request_kwargs m a) of
        Inl e \<Rightarrow>
          \<lparr> result = Inl (Propagated e),
            events = [GetLLM (llm_provider a) (request_kwargs m a)], caller = st \<rparr>
      | Inr provider \<Rightarrow>
          (case get_chat_response env provider (messages a) (stream a) (websocket a) of
             Inl e \<Rightarrow>
               \<lparr> result = Inl (Propagated e),
                 events = [GetLLM (llm_provider a) (request_kwargs m a), GetChatResponse],
                 caller = st \<rparr>
           | Inr response \<Rightarrow>
               (case cost_callback a of
                  None \<Rightarrow>
                    \<lparr> result = Inr response,
                      events = [GetLLM (llm_provider a) (request_kwargs m a), GetChatResponse],
                      caller = st \<rparr>
                | Some cb \<Rightarrow>
                    \<lparr> result = Inr response,
                      events = [GetLLM (llm_provider a) (request_kwargs m a), GetChatResponse,
                                EstimateCost (str_of env (messages a)) response,
                                CostCallback (estimate_llm_cost env (str_of env (messages a)) response)],
                      caller = cb (estimate_llm_cost env (str_of env (messages a)) response) st \<rparr>)))"
  by (simp add: resolve_and_call_def attempt_loop_range_10 Let_def
      split: sum.splits option.splits)

lemma callback_on_success:
  "cost_callback a = Some cb \<Longrightarrow> result (resolve_and_call env a m st) = Inr response \<Longrightarrow>
     tl (events (resolve_and_call env a m st)) =
       [GetChatResponse, EstimateCost (str_of env (messages a)) response,
        CostCallback (estimate_llm_cost env (str_of env (messages a)) response)]
     \<and> caller (resolve_and_call env a m st) =
         cb (estimate_llm_cost env (str_of env (messages a)) response) st"
  by (auto simp add: resolve_and_call_cases split: sum.splits)

lemma no_callback_on_failure:
  "result (resolve_and_call env a m st) = Inl e \<Longrightarrow>
     callback_costs (events (resolve_and_call env a m st)) = []
     \<and> estimates (events (resolve_and_call env a m st)) = []
     \<and> caller (resolve_and_call env a m st) = st"
  by (simp add: resolve_and_call_cases split: sum.splits option.splits)

lemma no_estimate_without_callback:
  "cost_callback a = None \<Longrightarrow>
     callback_costs (events (resolve_and_call env a m st)) = []
     \<and> estimates (events (resolve_and_call env a m st)) = []
     \<and> caller (resolve_and_call env a m st) = st"
  by (simp add: resolve_and_call_cases split: sum.splits)

lemma create_chat_completion_cases:
  "create_chat_completion env a st =
     (case model a of
        None \<Rightarrow> \<lparr> result = Inl (ValueError ''Model cannot be None''), events = [], caller = st \<rparr>
      | Some m \<Rightarrow>
          (case max_tokens a of
             None \<Rightarrow> resolve_and_call env a m st
           | Some n \<Rightarrow>
               if 16001 < n
               then \<lparr> result = Inl (ValueError (max_tokens_message n)), events = [], caller = st \<rparr>
               else resolve_and_call env a m st))"
  by (simp add: create_chat_completion_def split: option.splits)

text \<open>
  C7. With a cost callback, a call that returns a response has called the callback
  exactly once, after the provider answered and before the return, with the cost
  estimated from \<^verbatim>\<open>str(messages)\<close> and the response; a call that fails has not called
  it; and without a callback there is neither a cost estimate nor a callback, and the
  caller's state is as it was. (The callback and the estimator are the caller's and
  \<^verbatim>\<open>costs.py\<close>'s; they are taken to return.)
\<close>

theorem cost_callback_once_on_success_never_on_failure:
  "(cost_callback a = Some cb \<and> result (create_chat_completion env a st) = Inr response \<longrightarrow>
      tl (events (create_chat_completion env a st)) =
        [GetChatResponse, EstimateCost (str_of env (messages a)) response,
         CostCallback (estimate_llm_cost env (str_of env (messages a)) response)]
      \<and> callback_costs (events (create_chat_completion env a st)) =
          [estimate_llm_cost env (str_of env (messages a)) response]
      \<and> caller (create_chat_completion env a st) =
          cb (estimate_llm_cost env (str_of env (messages a)) response) st)
   \<and> (result (create_chat_completion env a st) = Inl e \<longrightarrow>
      callback_costs (events (create_chat_completion env a st)) = []
      \<and> estimates (events (create_chat_completion env a st)) = []
      \<and> caller (create_chat_completion env a st) = st)
   \<and> (cost_callback a = None \<longrightarrow>
      callback_costs (events (create_chat_completion env a st)) = []
      \<and> estimates (events (create_chat_completion env a st)) = []
      \<and> caller (create_chat_completion env a st) = st)"
proof (intro conjI impI)
  assume ok: "cost_callback a = Some cb \<and> result (create_chat_completion env a st) = Inr response"
  then obtain m where m: "model a = Some m"
    and run: "create_chat_completion env a st = resolve_and_call env a m st"
    by (auto simp add: create_chat_completion_cases split: option.splits if_splits)
  from ok run have "result (resolve_and_call env a m st) = Inr response" by simp
  with ok have tl_ev: "tl (events (resolve_and_call env a m st)) =
       [GetChatResponse, EstimateCost (str_of env (messages a)) response,
        CostCallback (estimate_llm_cost env (str_of env (messages a)) response)]"
    and st: "caller (resolve_and_call env a m st) =
         cb (estimate_llm_cost env (str_of env (messages a)) response) st"
    using callback_on_success [of a cb env m st response] by simp_all
  from tl_ev run
  show "tl (events (create_chat_completion env a st)) =
        [GetChatResponse, EstimateCost (str_of env (messages a)) response,
         CostCallback (estimate_llm_cost env (str_of env (messages a)) response)]"
    by simp
  have "events (resolve_and_call env a m st) =
      GetLLM (llm_provider a) (request_kwargs m a) # tl (events (resolve_and_call env a m st))"
    by (simp add: resolve_and_call_cases split: sum.splits option.splits)
  with tl_ev run
  show "callback_costs (events (create_chat_completion env a st)) =
          [estimate_llm_cost env (str_of env (messages a)) response]"
    by simp
  from st run
  show "caller (create_chat_completion env a st) =
          cb (estimate_llm_cost env (str_of env (messages a)) response) st"
    by simp
next
  assume failed: "result (create_chat_completion env a st) = Inl e"
  show "callback_costs (events (create_chat_completion env a st)) = []"
    and "estimates (events (create_chat_completion env a st)) = []"
    and "caller (create_chat_completion env a st) = st"
    using failed
    by (simp_all add: create_chat_completion_cases no_callback_on_failure
        split: option.splits if_splits)
next
  assume none: "cost_callback a = None"
  show "callback_costs (events (create_chat_completion env a st)) = []"
    and "estimates (events (create_chat_completion env a st)) = []"
    and "caller (create_chat_completion env a st) = st"
    using none
    by (simp_all add: create_chat_completion_cases no_estimate_without_callback
        split: option.splits)
qed

theorem cost_callback_once_on_success_never_on_failure_witness:
  "result (create_chat_completion (fixed_env (Inr ''hello''))
      ((default_args [''hi''] :: (string, unit, nat, nat list) chat_args)
         \<lparr> model := Some ''gpt-4'', cost_callback := Some record_cost \<rparr>) [])
     = Inr ''hello''
   \<and> callback_costs (events (create_chat_completion (fixed_env (Inr ''hello''))
      ((default_args [''hi''] :: (string, unit, nat, nat list) chat_args)
         \<lparr> model := Some ''gpt-4'', cost_callback := Some record_cost \<rparr>) []))
     = [7]
   \<and> caller (create_chat_completion (fixed_env (Inr ''hello''))
      ((default_args [''hi''] :: (string, unit, nat, nat list) chat_args)
         \<lparr> model := Some ''gpt-4'', cost_callback := Some record_cost \<rparr>) [])
     = [7]
   \<and> result (create_chat_completion (fixed_env (Inl ''timeout''))
      ((default_args [''hi''] :: (string, unit, nat, nat list) chat_args)
         \<lparr> model := Some ''gpt-4'', cost_callback := Some record_cost \<rparr>) [])
     = Inl (Propagated ''timeout'')
   \<and> callback_costs (events (create_chat_completion (fixed_env (Inl ''timeout''))
      ((default_args [''hi''] :: (string, unit, nat, nat list) chat_args)
         \<lparr> model := Some ''gpt-4'', cost_callback := Some record_cost \<rparr>) []))
     = []
   \<and> caller (create_chat_completion (fixed_env (Inl ''timeout''))
      ((default_args [''hi''] :: (string, unit, nat, nat list) chat_args)
         \<lparr> model := Some ''gpt-4'', cost_callback := Some record_cost \<rparr>) [])
     = []
   \<and> estimates (events (create_chat_completion (fixed_env (Inr ''hello''))
      ((default_args [''hi''] :: (string, unit, nat, nat list) chat_args)
         \<lparr> model := Some ''gpt-4'' \<rparr>) []))
     = []"
proof -
  let ?a = "(default_args [''hi''] :: (string, unit, nat, nat list) chat_args)
              \<lparr> model := Some ''gpt-4'', cost_callback := Some record_cost \<rparr>"
  let ?b = "(default_args [''hi''] :: (string, unit, nat, nat list) chat_args)
              \<lparr> model := Some ''gpt-4'' \<rparr>"
  have cb: "cost_callback ?a = Some record_cost" and none: "cost_callback ?b = None"
    by (simp_all add: default_args_def)
  have ok: "result (create_chat_completion (fixed_env (Inr ''hello'')) ?a []) = Inr ''hello''"
    by (simp add: create_chat_completion_cases resolve_and_call_result default_args_def
        fixed_env_def get_llm_def)
  have failed: "result (create_chat_completion (fixed_env (Inl ''timeout'')) ?a [])
      = Inl (Propagated ''timeout'')"
    by (simp add: create_chat_completion_cases resolve_and_call_result default_args_def
        fixed_env_def get_llm_def)
  have cost: "estimate_llm_cost (fixed_env (Inr ''hello''))
      (str_of (fixed_env (Inr ''hello'')) (messages ?a)) ''hello'' = 7"
    by (simp add: fixed_env_def default_args_def)
  from cost_callback_once_on_success_never_on_failure
         [where a = ?a and cb = record_cost and env = "fixed_env (Inr ''hello'')" and st = "[]"
            and response = "''hello''" and e = "Propagated ''timeout''"]
       cb ok cost
  have one: "callback_costs (events (create_chat_completion (fixed_env (Inr ''hello'')) ?a [])) = [7]
      \<and> caller (create_chat_completion (fixed_env (Inr ''hello'')) ?a []) = [7]"
    by (simp add: record_cost_def)
  from cost_callback_once_on_success_never_on_failure
         [where a = ?a and cb = record_cost and env = "fixed_env (Inl ''timeout'')" and st = "[]"
            and response = "''hello''" and e = "Propagated ''timeout''"]
       failed
  have two: "callback_costs (events (create_chat_completion (fixed_env (Inl ''timeout'')) ?a [])) = []
      \<and> caller (create_chat_completion (fixed_env (Inl ''timeout'')) ?a []) = []"
    by simp
  from cost_callback_once_on_success_never_on_failure
         [where a = ?b and cb = record_cost and env = "fixed_env (Inr ''hello'')" and st = "[]"
            and response = "''hello''" and e = "Propagated ''timeout''"]
       none
  have three: "estimates (events (create_chat_completion (fixed_env (Inr ''hello'')) ?b [])) = []"
    by simp
  from ok failed one two three show ?thesis by simp
qed

section \<open>\<^verbatim>\<open>construct_subtopics\<close>: result and fallback\<close>

text \<open>The \<^verbatim>\<open>try\<close> block fails exactly when one of its three steps does.\<close>

lemma try_body_prompt_fails:
  "subtopics_prompt env = Inl e \<Longrightarrow> try_body env task data cfg subtopics h = Inl e"
  by (simp add: try_body_def)

lemma try_body_get_llm_fails:
  "get_llm env (smart_llm_provider cfg) (subtopics_kwargs cfg) = Inl e \<Longrightarrow>
     \<exists>e'. try_body env task data cfg subtopics h = Inl e'"
  by (simp add: try_body_def split: sum.splits)

lemma try_body_chain:
  "subtopics_prompt env = Inr q \<Longrightarrow>
   get_llm env (smart_llm_provider cfg) (subtopics_kwargs cfg) = Inr p \<Longrightarrow>
     try_body env task data cfg subtopics h =
       chain_invoke env q p task data (h subtopics) (max_subtopics cfg)"
  by (simp add: try_body_def)

lemma construct_subtopics_fallback:
  "try_body env task data cfg subtopics h = Inl e \<Longrightarrow>
     construct_subtopics env task data cfg subtopics h =
       \<lparr> returned = Inr (ListRef subtopics), store_after = h, printed = [e] \<rparr>"
  by (simp add: construct_subtopics_def)

lemma construct_subtopics_success:
  "try_body env task data cfg subtopics h = Inr output \<Longrightarrow>
     construct_subtopics env task data cfg subtopics h =
       \<lparr> returned = Inr (SubtopicsObj output), store_after = h, printed = [] \<rparr>"
  by (simp add: construct_subtopics_def)

text \<open>
  C4 as stated: a successful run returns at most \<^verbatim>\<open>config.max_subtopics\<close> subtopics,
  even when the parsed output has more. The function hands \<^verbatim>\<open>max_subtopics\<close> to the
  chain as an input of the prompt and returns the chain's output as it is; nothing
  shortens it. With a maximum of 2 and a parsed output of three subtopics, three are
  returned.
\<close>

theorem parsed_output_longer_than_maximum_is_returned:
  "max_subtopics sample_config = 2
   \<and> returned (construct_subtopics (fixed_chain (Inr ''prompt'') (Inr [''a'', ''b'', ''c'']))
        ''topic A'' ''ctx'' sample_config 0 (\<lambda>r. []))
     = Inr (SubtopicsObj [''a'', ''b'', ''c''])
   \<and> length (elements (\<lambda>r. []) (SubtopicsObj [''a'', ''b'', ''c''])) = 3"
  by (simp add: construct_subtopics_def try_body_def fixed_chain_def get_llm_def
      sample_config_def elements_def)

text \<open>
  C4, amended: a successful run (the prompt is built, the provider is resolved and the
  chain returns a parsed output) returns that output unchanged, with all its entries and
  in their order, and prints nothing; \<^verbatim>\<open>config.max_subtopics\<close> reaches the chain as
  an input and has no other effect on the result.
\<close>

theorem successful_run_returns_parsed_output:
  "subtopics_prompt env = Inr q \<Longrightarrow>
   get_llm env (smart_llm_provider cfg) (subtopics_kwargs cfg) = Inr p \<Longrightarrow>
   chain_invoke env q p task data (h subtopics) (max_subtopics cfg) = Inr output \<Longrightarrow>
     returned (construct_subtopics env task data cfg subtopics h) = Inr (SubtopicsObj output)
     \<and> elements (store_after (construct_subtopics env task data cfg subtopics h))
          (SubtopicsObj output) = output
     \<and> printed (construct_subtopics env task data cfg subtopics h) = []"
  by (simp add: try_body_chain construct_subtopics_success elements_def)

theorem successful_run_returns_parsed_output_witness:
  "returned (construct_subtopics (fixed_chain (Inr ''prompt'') (Inr [''a'', ''b'', ''c'']))
        ''topic A'' ''ctx'' sample_config 0 (\<lambda>r. []))
     = Inr (SubtopicsObj [''a'', ''b'', ''c''])
   \<and> printed (construct_subtopics (fixed_chain (Inr ''prompt'') (Inr [''a'', ''b'', ''c'']))
        ''topic A'' ''ctx'' sample_config 0 (\<lambda>r. []))
     = []"
proof -
  let ?env = "fixed_chain (Inr ''prompt'') (Inr [''a'', ''b'', ''c''])"
  have 1: "subtopics_prompt ?env = Inr ''prompt''"
    by (simp add: fixed_chain_def)
  have 2: "get_llm ?env (smart_llm_provider sample_config) (subtopics_kwargs sample_config) = Inr ()"
    by (simp add: fixed_chain_def get_llm_def)
  have 3: "chain_invoke ?env ''prompt'' () ''topic A'' ''ctx'' ((\<lambda>r. []) (0::nat))
      (max_subtopics sample_config) = Inr [''a'', ''b'', ''c'']"
    by (simp add: fixed_chain_def)
  from successful_run_returns_parsed_output [OF 1 2 3] show ?thesis by simp
qed

text \<open>
  C5. The call never raises: it always returns a value. Whenever a step of the
  \<^verbatim>\<open>try\<close> block raises, be it the composition of the prompt, the resolution of the
  provider or the invocation of the chain (the provider's call and the parsing of its
  answer), the returned value is the \<^verbatim>\<open>subtopics\<close> argument itself, holding the
  elements it held before the call.
\<close>

theorem failure_returns_existing_subtopics:
  "(\<exists>v. returned (construct_subtopics env task data cfg subtopics h) = Inr v)
   \<and> ((subtopics_prompt env = Inl e
        \<or> get_llm env (smart_llm_provider cfg) (subtopics_kwargs cfg) = Inl e
        \<or> (subtopics_prompt env = Inr q
            \<and> get_llm env (smart_llm_provider cfg) (subtopics_kwargs cfg) = Inr p
            \<and> chain_invoke env q p task data (h subtopics) (max_subtopics cfg) = Inl e))
       \<longrightarrow> returned (construct_subtopics env task data cfg subtopics h) = Inr (ListRef subtopics)
           \<and> elements (store_after (construct_subtopics env task data cfg subtopics h))
                (ListRef subtopics) = h subtopics)"
proof (intro conjI impI)
  show "\<exists>v. returned (construct_subtopics env task data cfg subtopics h) = Inr v"
    by (simp add: construct_subtopics_def split: sum.splits)
next
  assume "subtopics_prompt env = Inl e
        \<or> get_llm env (smart_llm_provider cfg) (subtopics_kwargs cfg) = Inl e
        \<or> (subtopics_prompt env = Inr q
            \<and> get_llm env (smart_llm_provider cfg) (subtopics_kwargs cfg) = Inr p
            \<and> chain_invoke env q p task data (h subtopics) (max_subtopics cfg) = Inl e)"
  then have "\<exists>e'. try_body env task data cfg subtopics h = Inl e'"
  proof (elim disjE conjE)
    assume "subtopics_prompt env = Inl e"
    then show ?thesis by (simp add: try_body_prompt_fails)
  next
    assume "get_llm env (smart_llm_provider cfg) (subtopics_kwargs cfg) = Inl e"
    then show ?thesis by (rule try_body_get_llm_fails)
  next
    assume "subtopics_prompt env = Inr q"
      and "get_llm env (smart_llm_provider cfg) (subtopics_kwargs cfg) = Inr p"
      and "chain_invoke env q p task data (h subtopics) (max_subtopics cfg) = Inl e"
    then show ?thesis by (simp add: try_body_chain)
  qed
  then obtain e' where "try_body env task data cfg subtopics h = Inl e'" ..
  then have out: "construct_subtopics env task data cfg subtopics h =
       \<lparr> returned = Inr (ListRef subtopics), store_after = h, printed = [e'] \<rparr>"
    by (rule construct_subtopics_fallback)
  from out show "returned (construct_subtopics env task data cfg subtopics h) = Inr (ListRef subtopics)"
    by simp
  from out show "elements (store_after (construct_subtopics env task data cfg subtopics h))
                (ListRef subtopics) = h subtopics"
    by (simp add: elements_def)
qed

theorem failure_returns_existing_subtopics_witness:
  "returned (construct_subtopics (fixed_chain (Inr ''prompt'') (Inl ''malformed JSON''))
        ''topic A'' ''ctx'' sample_config 0 (\<lambda>r. if r = 0 then [''S1''] else []))
     = Inr (ListRef 0)
   \<and> elements (store_after (construct_subtopics (fixed_chain (Inr ''prompt'') (Inl ''malformed JSON''))
        ''topic A'' ''ctx'' sample_config 0 (\<lambda>r. if r = 0 then [''S1''] else [])))
        (ListRef 0)
     = [''S1'']
   \<and> returned (construct_subtopics (fixed_chain (Inl ''missing variable'') (Inr [''a'']))
        ''topic A'' ''ctx'' sample_config 0 (\<lambda>r. if r = 0 then [''S1''] else []))
     = Inr (ListRef 0)"
proof -
  let ?h = "\<lambda>r::nat. if r = 0 then [''S1''] else []"
  let ?parse = "fixed_chain (Inr ''prompt'') (Inl ''malformed JSON'')"
  let ?compose = "fixed_chain (Inl ''missing variable'') (Inr [''a''])"
  have parse: "subtopics_prompt ?parse = Inr ''prompt''
      \<and> get_llm ?parse (smart_llm_provider sample_config) (subtopics_kwargs sample_config) = Inr ()
      \<and> chain_invoke ?parse ''prompt'' () ''topic A'' ''ctx'' (?h 0) (max_subtopics sample_config)
          = Inl ''malformed JSON''"
    by (simp add: fixed_chain_def get_llm_def)
  have compose: "subtopics_prompt ?compose = Inl ''missing variable''"
    by (simp add: fixed_chain_def)
  from failure_returns_existing_subtopics
         [where env = ?parse and task = "''topic A''" and data = "''ctx''" and cfg = sample_config
            and subtopics = 0 and h = ?h and e = "''malformed JSON''" and q = "''prompt''"
            and p = "()"]
       parse
  have a: "returned (construct_subtopics ?parse ''topic A'' ''ctx'' sample_config 0 ?h)
        = Inr (ListRef 0)
      \<and> elements (store_after (construct_subtopics ?parse ''topic A'' ''ctx'' sample_config 0 ?h))
          (ListRef 0) = [''S1'']"
    by simp
  from failure_returns_existing_subtopics
         [where env = ?compose and task = "''topic A''" and data = "''ctx''" and cfg = sample_config
            and subtopics = 0 and h = ?h and e = "''missing variable''" and q = "''prompt''"
            and p = "()"]
       compose
  have b: "returned (construct_subtopics ?compose ''topic A'' ''ctx'' sample_config 0 ?h)
        = Inr (ListRef 0)"
    by simp
  from a b show ?thesis by simp
qed

text \<open>
  C10. The function writes to no list: after any call, successful or fallen back, the
  store is the one before the call, so the list passed in holds the elements it held;
  and on the fallback path (the \<^verbatim>\<open>try\<close> block raised, the exception was printed)
  the returned value is the reference that was passed in, not a copy.
\<close>

theorem subtopics_argument_not_mutated:
  "store_after (construct_subtopics env task data cfg subtopics h) = h
   \<and> store_after (construct_subtopics env task data cfg subtopics h) subtopics = h subtopics
   \<and> (try_body env task data cfg subtopics h = Inl e \<longrightarrow>
        returned (construct_subtopics env task data cfg subtopics h) = Inr (ListRef subtopics)
        \<and> printed (construct_subtopics env task data cfg subtopics h) = [e])"
  by (simp add: construct_subtopics_def split: sum.splits)

theorem subtopics_argument_not_mutated_witness:
  "store_after (construct_subtopics (fixed_chain (Inr ''prompt'') (Inl ''malformed JSON''))
        ''topic A'' ''ctx'' sample_config 0 (\<lambda>r. if r = 0 then [''S1''] else [])) 0
     = [''S1'']
   \<and> returned (construct_subtopics (fixed_chain (Inr ''prompt'') (Inl ''malformed JSON''))
        ''topic A'' ''ctx'' sample_config 0 (\<lambda>r. if r = 0 then [''S1''] else []))
     = Inr (ListRef 0)
   \<and> store_after (construct_subtopics (fixed_chain (Inr ''prompt'') (Inr [''a'', ''b'']))
        ''topic A'' ''ctx'' sample_config 0 (\<lambda>r. if r = 0 then [''S1''] else [])) 0
     = [''S1'']"
proof -
  let ?h = "\<lambda>r::nat. if r = 0 then [''S1''] else []"
  let ?parse = "fixed_chain (Inr ''prompt'') (Inl ''malformed JSON'')"
  let ?good = "fixed_chain (Inr ''prompt'') (Inr [''a'', ''b''])"
  have raised: "try_body ?parse ''topic A'' ''ctx'' sample_config 0 ?h = Inl ''malformed JSON''"
    by (simp add: try_body_def fixed_chain_def get_llm_def)
  from subtopics_argument_not_mutated
         [where env = ?parse and task = "''topic A''" and data = "''ctx''" and cfg = sample_config
            and subtopics = 0 and h = ?h and e = "''malformed JSON''"]
       raised
  have a: "store_after (construct_subtopics ?parse ''topic A'' ''ctx'' sample_config 0 ?h) 0 = [''S1'']
      \<and> returned (construct_subtopics ?parse ''topic A'' ''ctx'' sample_config 0 ?h) = Inr (ListRef 0)"
    by simp
  from subtopics_argument_not_mutated
         [where env = ?good and task = "''topic A''" and data = "''ctx''" and cfg = sample_config
            and subtopics = 0 and h = ?h and e = "''malformed JSON''"]
  have b: "store_after (construct_subtopics ?good ''topic A'' ''ctx'' sample_config 0 ?h) 0 = [''S1'']"
    by simp
  from a b show ?thesis by simp
qed

end
